theory Spec2Isabelle
  imports Complex_Main
begin

section \<open>Exceptions\<close>

text \<open>
  The exception classes that the methods of \<^verbatim>\<open>BotBase\<close> and \<^verbatim>\<open>Bot\<close> raise or catch.
  \<^verbatim>\<open>BotError\<close> and \<^verbatim>\<open>RuntimeError\<close> carry their message, \<^verbatim>\<open>TelegramApiError\<close> carries
  \<^verbatim>\<open>e.response.status\<close>. \<^verbatim>\<open>TimeoutError\<close> is \<^verbatim>\<open>asyncio.TimeoutError\<close>, \<^verbatim>\<open>ClientError\<close> is
  \<^verbatim>\<open>aiohttp.ClientError\<close>. \<^verbatim>\<open>TypeError\<close> and \<^verbatim>\<open>AttributeError\<close> are what Python raises when
  \<^verbatim>\<open>self._scheduler\<close> is \<^verbatim>\<open>None\<close> and is iterated or asked for \<^verbatim>\<open>spawn\<close>.
\<close>

datatype error =
    BotError string
  | RuntimeError string
  | TypeError string
  | AttributeError string
  | TelegramApiError int
  | TimeoutError
  | ClientError

section \<open>Data\<close>

text \<open>
  A raw update is the dict of one Telegram update: its \<^verbatim>\<open>"update_id"\<close> entry and the rest
  of the payload, which the bot never inspects itself.
\<close>

datatype 'p raw = Raw (raw_update_id: int) (raw_payload: 'p)

text \<open>
  The value of \<^verbatim>\<open>client.get_updates\<close> is \<^verbatim>\<open>None\<close> or the dict of the answer; \<open>result\<close> is its
  \<^verbatim>\<open>"result"\<close> entry. A dict that has this entry is not empty, so it is truthy.
\<close>

datatype 'p response = Response (result: "'p raw list")

text \<open>
  A unit of work held by the scheduler: the poller coroutine \<^verbatim>\<open>_get_updates(interval)\<close>, or the
  coroutine \<^verbatim>\<open>middlewares(Message(client, data, ctx, chat_type, incoming, content_type), handler)\<close>
  of one update: its raw update, the classification of \<^verbatim>\<open>recognize_type\<close> and the handler
  that \<^verbatim>\<open>handlers.get\<close> chose.
\<close>

datatype ('p, 'c, 'f) job =
    Poller real
  | Dispatch "'p raw" 'c 'f

text \<open>
  What a method does to the event loop and to its collaborators, in the order it happens:
  a fetch with its offset, \<^verbatim>\<open>client.process_error\<close> with the status, \<^verbatim>\<open>logger.exception\<close>,
  \<^verbatim>\<open>asyncio.sleep\<close> with its delay, \<^verbatim>\<open>job.wait()\<close> and \<^verbatim>\<open>scheduler.close()\<close>.
\<close>

datatype ('p, 'c, 'f) effect =
    Fetched int
  | ErrorProcessed int
  | Logged error
  | Slept real
  | Waited "('p, 'c, 'f) job"
  | SchedulerClosed

text \<open>One registered handler: the arguments of \<^verbatim>\<open>handlers.add\<close> and the callback.\<close>

record ('k, 'r, 'f) entry =
  content_type :: 'k
  rule :: "'r option"
  callback :: 'f

text \<open>
  The fields of \<^verbatim>\<open>BotBase\<close> that its methods assign: \<^verbatim>\<open>handlers\<close>, \<^verbatim>\<open>_scheduler\<close> (\<open>None\<close>, or
  the jobs that the scheduler holds, in the order they were spawned), \<^verbatim>\<open>_closed\<close> and
  \<^verbatim>\<open>_update_id\<close>. \<open>effects\<close> is not a field of the object: it is the history of what the
  methods did outside the object. \<^verbatim>\<open>middlewares\<close>, \<^verbatim>\<open>ctx\<close>, \<^verbatim>\<open>client\<close> and \<^verbatim>\<open>loop\<close> are
  references that no method below assigns.
\<close>

record ('p, 'c, 'k, 'r, 'f) bot =
  handlers :: "('k, 'r, 'f) entry list"
  scheduler :: "('p, 'c, 'f) job list option"
  closed :: bool
  update_id :: int
  effects :: "('p, 'c, 'f) effect list"

text \<open>
  The parts of the package that the bot calls and that are not among the sources
  (\<^verbatim>\<open>types.py\<close>, \<^verbatim>\<open>rules.py\<close>, \<^verbatim>\<open>handler.py\<close>), taken as parameters:
  \<^verbatim>\<open>recognize_type\<close>, \<^verbatim>\<open>Handlers.get\<close>, the constant \<^verbatim>\<open>Content.COMMAND\<close>, the rule \<^verbatim>\<open>Command()\<close>
  and the truth value of a member of \<^verbatim>\<open>Chat\<close>, \<^verbatim>\<open>Incoming\<close> or \<^verbatim>\<open>Content\<close>.
\<close>

record ('p, 'c, 'k, 'r, 'f) collab =
  recognize_type :: "'p raw \<Rightarrow> 'c"
  handlers_get :: "('k, 'r, 'f) entry list \<Rightarrow> 'c \<Rightarrow> 'p raw \<Rightarrow> 'f"
  content_command :: 'k
  rule_command :: 'r
  kind_truth :: "'k \<Rightarrow> bool"

text \<open>\<^verbatim>\<open>BotBase.__init__\<close> with no handlers given.\<close>

definition new_bot :: "('p, 'c, 'k, 'r, 'f) bot" where
  "new_bot = \<lparr>handlers = [], scheduler = None, closed = True, update_id = 0, effects = []\<rparr>"

section \<open>The handler registry\<close>

text \<open>
  Modelled from the spec: \<^verbatim>\<open>Handlers.add\<close> of \<^verbatim>\<open>handler.py\<close>, which is not among the sources.
  \<^verbatim>\<open>handlers.add(content_type=k, rule=r)\<close> is a decorator; applied to a callback it appends
  the entry to the ordered list, with no deduplication, and returns the callback unchanged.
\<close>

definition handlers_add ::
  "'k \<Rightarrow> 'r option \<Rightarrow> ('k, 'r, 'f) entry list \<Rightarrow> 'f \<Rightarrow> 'f \<times> ('k, 'r, 'f) entry list" where
  "handlers_add k r hs f = (f, hs @ [\<lparr>content_type = k, rule = r, callback = f\<rparr>])"

text \<open>
  Modelled from the spec: the truth value of a \<^verbatim>\<open>Handlers\<close> object (\<^verbatim>\<open>handler.py\<close> is not among
  the sources): it is false exactly when no handler is registered.
\<close>

definition handlers_truth :: "('k, 'r, 'f) entry list \<Rightarrow> bool" where
  "handlers_truth hs = (hs \<noteq> [])"

section \<open>The scheduler\<close>

text \<open>
  \<^verbatim>\<open>await self._scheduler.spawn(coro)\<close>: the scheduler takes the job. On \<^verbatim>\<open>None\<close> the attribute
  access fails.
\<close>

definition spawn ::
  "('p, 'c, 'f) job \<Rightarrow> ('p, 'c, 'k, 'r, 'f) bot \<Rightarrow> (error + unit) \<times> ('p, 'c, 'k, 'r, 'f) bot" where
  "spawn j b =
     (case scheduler b of
        None \<Rightarrow> (Inl (AttributeError ''spawn''), b)
      | Some js \<Rightarrow> (Inr (), b\<lparr>scheduler := Some (js @ [j])\<rparr>))"


section \<open>BotBase\<close>

text \<open>\<^verbatim>\<open>BotBase.initialize(webhook, interval)\<close>.\<close>

definition initialize ::
  "('p, 'c, 'k, 'r, 'f) bot \<Rightarrow> bool \<Rightarrow> real \<Rightarrow> (error + unit) \<times> ('p, 'c, 'k, 'r, 'f) bot" where
  "initialize b webhook interval =
     (if closed b = False then (Inr (), b)
      else if \<not> handlers_truth (handlers b)
        then (Inl (BotError ''Can't initialize with no one handler''), b)
      else
        let b1 = b\<lparr>closed := False\<rparr>;
            b2 = b1\<lparr>scheduler := Some []\<rparr>
        in if webhook = False then spawn (Poller interval) b2 else (Inr (), b2))"


text \<open>
  \<^verbatim>\<open>BotBase.add_handler(handler, content_type=k, rule=r)\<close>. The method has no \<^verbatim>\<open>return\<close>
  statement: what \<^verbatim>\<open>handlers.add(...)(handler)\<close> gives back is dropped and the call
  evaluates to \<^verbatim>\<open>None\<close>.
\<close>

definition add_handler ::
  "('p, 'c, 'k, 'r, 'f) bot \<Rightarrow> 'f \<Rightarrow> 'k \<Rightarrow> 'r option \<Rightarrow> 'f option \<times> ('p, 'c, 'k, 'r, 'f) bot" where
  "add_handler b handler k r =
     (case handlers_add k r (handlers b) handler of
        (ret, hs) \<Rightarrow> (None, b\<lparr>handlers := hs\<rparr>))"

section \<open>Bot\<close>

text \<open>\<^verbatim>\<open>Bot.process_update(data)\<close>.\<close>

definition process_update ::
  "('p, 'c, 'k, 'r, 'f) collab \<Rightarrow> ('p, 'c, 'k, 'r, 'f) bot \<Rightarrow> 'p raw
   \<Rightarrow> (error + unit) \<times> ('p, 'c, 'k, 'r, 'f) bot" where
  "process_update K b data =
     (if closed b = True then (Inl (RuntimeError ''The bot isn't initialized''), b)
      else
        let cls = recognize_type K data;
            handler = handlers_get K (handlers b) cls data
        in spawn (Dispatch data cls handler) b)"

text \<open>
  \<^verbatim>\<open>BotBase._process_updates(data)\<close>: first its \<^verbatim>\<open>for\<close> loop over \<^verbatim>\<open>data["result"]\<close>, then the
  method. An exception of \<^verbatim>\<open>process_update\<close> leaves the loop with the state reached so far.
\<close>

fun process_updates_loop ::
  "('p, 'c, 'k, 'r, 'f) collab \<Rightarrow> ('p, 'c, 'k, 'r, 'f) bot \<Rightarrow> 'p raw list
   \<Rightarrow> (error + unit) \<times> ('p, 'c, 'k, 'r, 'f) bot" where
  "process_updates_loop K b [] = (Inr (), b)"
| "process_updates_loop K b (raw # rest) =
     (case process_update K b raw of
        (Inl e, b1) \<Rightarrow> (Inl e, b1)
      | (Inr u, b1) \<Rightarrow>
          process_updates_loop K (b1\<lparr>update_id := max (raw_update_id raw) (update_id b1)\<rparr>) rest)"

definition process_updates ::
  "('p, 'c, 'k, 'r, 'f) collab \<Rightarrow> ('p, 'c, 'k, 'r, 'f) bot \<Rightarrow> 'p response option
   \<Rightarrow> (error + unit) \<times> ('p, 'c, 'k, 'r, 'f) bot" where
  "process_updates K b data =
     (case data of
        None \<Rightarrow> (Inr (), b)
      | Some d \<Rightarrow>
          (case process_updates_loop K b (result d) of
             (Inl e, b1) \<Rightarrow> (Inl e, b1)
           | (Inr u, b1) \<Rightarrow>
               (Inr (), b1\<lparr>update_id := update_id b1 + (if result d \<noteq> [] then 1 else 0)\<rparr>)))"

text \<open>
  A decorator of \<^verbatim>\<open>Bot.command\<close> or \<^verbatim>\<open>Bot.trigger_message\<close>: a closure over the bot that takes
  the decorated function and gives the value that Python binds to the decorated name,
  \<open>None\<close> for \<^verbatim>\<open>None\<close>.
\<close>

type_synonym ('p, 'c, 'k, 'r, 'f) decorator =
  "'f \<Rightarrow> ('p, 'c, 'k, 'r, 'f) bot \<Rightarrow> 'f option \<times> ('p, 'c, 'k, 'r, 'f) bot"

text \<open>\<^verbatim>\<open>Bot.command()\<close>.\<close>

definition command :: "('p, 'c, 'k, 'r, 'f) collab \<Rightarrow> ('p, 'c, 'k, 'r, 'f) decorator" where
  "command K = (\<lambda>func b. add_handler b func (content_command K) (Some (rule_command K)))"

text \<open>
  \<^verbatim>\<open>Bot.trigger_message(message_type, rule)\<close>; \<open>None\<close> is Python's \<^verbatim>\<open>None\<close>, which is falsy, and
  the truth value of any other argument is \<open>kind_truth\<close>. The method itself assigns nothing.
\<close>

definition trigger_message ::
  "('p, 'c, 'k, 'r, 'f) collab \<Rightarrow> ('p, 'c, 'k, 'r, 'f) bot \<Rightarrow> 'k option \<Rightarrow> 'r option
   \<Rightarrow> (error + ('p, 'c, 'k, 'r, 'f) decorator) \<times> ('p, 'c, 'k, 'r, 'f) bot" where
  "trigger_message K b message_type r =
     (case message_type of
        None \<Rightarrow>
          (Inl (BotError ''message_type Union[Chat, Incoming, Content] must be specifized''), b)
      | Some m \<Rightarrow>
          if \<not> kind_truth K m
          then (Inl (BotError ''message_type Union[Chat, Incoming, Content] must be specifized''), b)
          else (Inr (\<lambda>func b'. add_handler b' func m r), b))"

text \<open>
  Python's decorator syntax: with \<^verbatim>\<open>@made\<close> above \<^verbatim>\<open>def func\<close>, where \<open>made\<close> is what
  \<^verbatim>\<open>bot.command()\<close> or \<^verbatim>\<open>bot.trigger_message(...)\<close> gave, the name \<^verbatim>\<open>func\<close> is bound to the
  value of \<^verbatim>\<open>made(func)\<close>; an exception of the call that makes the decorator leaves the
  definition.
\<close>

definition decorate ::
  "(error + ('p, 'c, 'k, 'r, 'f) decorator) \<times> ('p, 'c, 'k, 'r, 'f) bot \<Rightarrow> 'f
   \<Rightarrow> (error + 'f option) \<times> ('p, 'c, 'k, 'r, 'f) bot" where
  "decorate made func =
     (case made of
        (Inl e, b) \<Rightarrow> (Inl e, b)
      | (Inr dec, b) \<Rightarrow> (case dec func b of (bound, b1) \<Rightarrow> (Inr bound, b1)))"

section \<open>The poller\<close>

text \<open>
  What the world does during one iteration of the loop of \<^verbatim>\<open>Bot._get_updates\<close>: what
  \<^verbatim>\<open>await self.client.get_updates(self._update_id)\<close> gives, a value or an exception, and
  whether another task called \<^verbatim>\<open>close()\<close> while the poller was suspended in the fetch or in
  the \<^verbatim>\<open>asyncio.sleep\<close> of the iteration.
\<close>

datatype 'p fetch_outcome = Returned "'p response option" | Raised error

record 'p cycle =
  fetch :: "'p fetch_outcome"
  closed_while_fetching :: bool
  closed_while_sleeping :: bool

text \<open>
  An \<^verbatim>\<open>await\<close> of the poller during which \<^verbatim>\<open>close()\<close> may start. \<^verbatim>\<open>close()\<close> sets
  \<^verbatim>\<open>_closed = True\<close> and then waits for the jobs of the scheduler, the poller among them, so
  the poller sees nothing but the flag.
\<close>

definition suspended ::
  "bool \<Rightarrow> ('p, 'c, 'k, 'r, 'f) bot \<Rightarrow> ('p, 'c, 'k, 'r, 'f) bot" where
  "suspended c b = (if c then b\<lparr>closed := True\<rparr> else b)"

text \<open>\<^verbatim>\<open>await asyncio.sleep(d)\<close>.\<close>

definition sleep ::
  "real \<Rightarrow> bool \<Rightarrow> ('p, 'c, 'k, 'r, 'f) bot \<Rightarrow> ('p, 'c, 'k, 'r, 'f) bot" where
  "sleep d c b = suspended c (b\<lparr>effects := effects b @ [Slept d]\<rparr>)"

text \<open>
  The \<^verbatim>\<open>except\<close> clauses of the loop body, in their order. \<^verbatim>\<open>client.process_error\<close> is called
  with \<^verbatim>\<open>raise_ = False\<close> and only reports. An exception of no listed class leaves the
  coroutine.
\<close>

definition recover ::
  "'p cycle \<Rightarrow> error \<Rightarrow> ('p, 'c, 'k, 'r, 'f) bot \<Rightarrow> (error + unit) \<times> ('p, 'c, 'k, 'r, 'f) bot" where
  "recover ev e b =
     (case e of
        TelegramApiError status \<Rightarrow>
          let b1 = b\<lparr>effects := effects b @ [ErrorProcessed status]\<rparr>
          in if status \<ge> 500 then (Inr (), sleep 30 (closed_while_sleeping ev) b1)
             else (Inr (), sleep 10 (closed_while_sleeping ev) b1)
      | TimeoutError \<Rightarrow> (Inr (), b\<lparr>effects := effects b @ [Logged e]\<rparr>)
      | ClientError \<Rightarrow>
          (Inr (), sleep 10 (closed_while_sleeping ev) (b\<lparr>effects := effects b @ [Logged e]\<rparr>))
      | _ \<Rightarrow> (Inl e, b))"

text \<open>One run of the body of \<^verbatim>\<open>while self._closed is False\<close>.\<close>

definition poll_once ::
  "('p, 'c, 'k, 'r, 'f) collab \<Rightarrow> real \<Rightarrow> ('p, 'c, 'k, 'r, 'f) bot \<Rightarrow> 'p cycle
   \<Rightarrow> (error + unit) \<times> ('p, 'c, 'k, 'r, 'f) bot" where
  "poll_once K interval b ev =
     (let b0 = suspended (closed_while_fetching ev)
                 (b\<lparr>effects := effects b @ [Fetched (update_id b)]\<rparr>)
      in case fetch ev of
           Raised e \<Rightarrow> recover ev e b0
         | Returned data \<Rightarrow>
             (case process_updates K b0 data of
                (Inl e, b1) \<Rightarrow> recover ev e b1
              | (Inr u, b1) \<Rightarrow> (Inr (), sleep interval (closed_while_sleeping ev) b1)))"

text \<open>
  How \<^verbatim>\<open>Bot._get_updates(interval)\<close> stands after the given iterations of the world: the loop
  saw \<^verbatim>\<open>_closed\<close> true at the top and the coroutine returned, an exception left it, or it is
  still looping.
\<close>

datatype 'b poller = Finished 'b | Failed error 'b | Looping 'b

fun get_updates ::
  "('p, 'c, 'k, 'r, 'f) collab \<Rightarrow> real \<Rightarrow> ('p, 'c, 'k, 'r, 'f) bot \<Rightarrow> 'p cycle list
   \<Rightarrow> ('p, 'c, 'k, 'r, 'f) bot poller" where
  "get_updates K interval b [] = (if closed b = False then Looping b else Finished b)"
| "get_updates K interval b (ev # evs) =
     (if closed b = False
      then (case poll_once K interval b ev of
              (Inl e, b1) \<Rightarrow> Failed e b1
            | (Inr u, b1) \<Rightarrow> get_updates K interval b1 evs)
      else Finished b)"

section \<open>Notions used by the properties\<close>

text \<open>The arguments that \<^verbatim>\<open>not message_type\<close> holds for: \<^verbatim>\<open>None\<close> and every falsy member.\<close>

definition falsy :: "('p, 'c, 'k, 'r, 'f) collab \<Rightarrow> 'k option \<Rightarrow> bool" where
  "falsy K message_type = (case message_type of None \<Rightarrow> True | Some m \<Rightarrow> \<not> kind_truth K m)"

text \<open>The exception classes that an \<^verbatim>\<open>except\<close> clause of the poller names.\<close>

definition caught :: "error \<Rightarrow> bool" where
  "caught e =
     (case e of
        TelegramApiError status \<Rightarrow> True
      | TimeoutError \<Rightarrow> True
      | ClientError \<Rightarrow> True
      | _ \<Rightarrow> False)"

text \<open>The job that \<^verbatim>\<open>process_update\<close> spawns for a raw update when the handlers are \<open>hs\<close>.\<close>

definition dispatch_job ::
  "('p, 'c, 'k, 'r, 'f) collab \<Rightarrow> ('k, 'r, 'f) entry list \<Rightarrow> 'p raw \<Rightarrow> ('p, 'c, 'f) job" where
  "dispatch_job K hs data =
     Dispatch data (recognize_type K data) (handlers_get K hs (recognize_type K data) data)"

text \<open>
  An iteration of the world during which nobody calls \<^verbatim>\<open>close()\<close> and the fetch gives a value
  or raises an exception of a class that the poller catches.
\<close>

definition quiet :: "'p cycle \<Rightarrow> bool" where
  "quiet ev =
     (\<not> closed_while_fetching ev \<and> \<not> closed_while_sleeping ev \<and>
      (case fetch ev of Raised e \<Rightarrow> caught e | Returned data \<Rightarrow> True))"

text \<open>
  The updates of what a fetch gave: those of \<^verbatim>\<open>data["result"]\<close>, and none when the data is
  \<^verbatim>\<open>None\<close>.
\<close>

definition updates_of :: "'p response option \<Rightarrow> 'p raw list" where
  "updates_of data = (case data of None \<Rightarrow> [] | Some d \<Rightarrow> result d)"

text \<open>
  The data answers a fetch from the given offset: \<^verbatim>\<open>client.get_updates(offset)\<close> asks for the
  updates from \<open>offset\<close> on, so no update of the answer has an id below it.
\<close>

definition answers :: "int \<Rightarrow> 'p response option \<Rightarrow> bool" where
  "answers offset data = list_all (\<lambda>r. offset \<le> raw_update_id r) (updates_of data)"

section \<open>Example values\<close>

text \<open>
  Collaborators for the examples: every update is a text message, the first entry with the
  content type of the update gives the handler, every member is truthy. The bot of
  \<^verbatim>\<open>examples/polling.py\<close> registers \<^verbatim>\<open>hi\<close> for texts that contain "hi"; it is then
  initialized in polling mode.
\<close>

definition demo_collab :: "(string, string, string, string, string) collab" where
  "demo_collab =
     \<lparr>recognize_type = (\<lambda>data. ''text''),
      handlers_get = (\<lambda>hs c data. case find (\<lambda>h. content_type h = c) hs of
                                      None \<Rightarrow> ''default'' | Some h \<Rightarrow> callback h),
      content_command = ''command'',
      rule_command = ''Command'',
      kind_truth = (\<lambda>k. True)\<rparr>"

definition demo_registered :: "(string, string, string, string, string) bot" where
  "demo_registered = snd (add_handler new_bot ''hi'' ''text'' (Some ''Contains hi''))"

definition demo_running :: "(string, string, string, string, string) bot" where
  "demo_running = snd (initialize demo_registered False (1 / 10))"

text \<open>
  The running bot after the batch of the one update 9, so with offset 10, and a batch of two
  updates.
\<close>

definition late_bot :: "(string, string, string, string, string) bot" where
  "late_bot = snd (process_updates demo_collab demo_running (Some (Response [Raw 9 ''hello''])))"

definition demo_batch :: "string raw list" where
  "demo_batch = [Raw 5 ''hi'', Raw 6 ''hi there'']"



text \<open>
  Iterations of the world: a fetch that gives one update while \<^verbatim>\<open>close()\<close> is called, fetches
  that raise \<^verbatim>\<open>TelegramApiError\<close> with status 503 and 404, a fetch that times out, and a fetch of
  nothing followed by a sleep during which \<^verbatim>\<open>close()\<close> is called.
\<close>

definition closing_cycle :: "string cycle" where
  "closing_cycle =
     \<lparr>fetch = Returned (Some (Response [Raw 1 ''hi there''])),
      closed_while_fetching = True, closed_while_sleeping = False\<rparr>"

definition outage_cycle :: "string cycle" where
  "outage_cycle =
     \<lparr>fetch = Raised (TelegramApiError 503),
      closed_while_fetching = False, closed_while_sleeping = False\<rparr>"

definition missing_cycle :: "string cycle" where
  "missing_cycle =
     \<lparr>fetch = Raised (TelegramApiError 404),
      closed_while_fetching = False, closed_while_sleeping = False\<rparr>"

definition timeout_cycle :: "string cycle" where
  "timeout_cycle =
     \<lparr>fetch = Raised TimeoutError,
      closed_while_fetching = False, closed_while_sleeping = False\<rparr>"

definition last_cycle :: "string cycle" where
  "last_cycle =
     \<lparr>fetch = Returned None,
      closed_while_fetching = False, closed_while_sleeping = True\<rparr>"

section \<open>Properties\<close>

lemma demo_registered_eq:
  "demo_registered =
     \<lparr>handlers = [\<lparr>content_type = ''text'', rule = Some ''Contains hi'', callback = ''hi''\<rparr>],
      scheduler = None, closed = True, update_id = 0, effects = []\<rparr>"
  by (simp add: demo_registered_def add_handler_def handlers_add_def new_bot_def)

lemma demo_running_eq:
  "demo_running =
     \<lparr>handlers = [\<lparr>content_type = ''text'', rule = Some ''Contains hi'', callback = ''hi''\<rparr>],
      scheduler = Some [Poller (1 / 10)], closed = False, update_id = 0, effects = []\<rparr>"
  by (simp add: demo_running_def demo_registered_eq initialize_def handlers_truth_def spawn_def)

subsection \<open>Dispatch on a closed bot\<close>

text \<open>
  C3: for every raw update, \<^verbatim>\<open>process_update\<close> on a bot whose \<^verbatim>\<open>_closed\<close> is true raises the
  \<^verbatim>\<open>RuntimeError\<close> "The bot isn't initialized" (the not-initialized error of the
  specification) and leaves the bot as it was: the scheduler gets no job.
\<close>

theorem process_update_closed:
  "closed b \<Longrightarrow> process_update K b data = (Inl (RuntimeError ''The bot isn't initialized''), b)"
  by (simp add: process_update_def)

theorem process_update_closed_witness:
  "closed (new_bot :: (string, string, string, string, string) bot) \<and>
   process_update demo_collab new_bot (Raw 1 ''hi there'')
     = (Inl (RuntimeError ''The bot isn't initialized''), new_bot)"
  using process_update_closed [of new_bot demo_collab "Raw 1 ''hi there''"]
  by (simp add: new_bot_def)

subsection \<open>Initialize\<close>

text \<open>
  C4: \<^verbatim>\<open>initialize\<close> on a closed bot with no registered handler raises the \<^verbatim>\<open>BotError\<close>
  "Can't initialize with no one handler" (the configuration error of the specification) and
  leaves the bot as it was, so it is still closed.
\<close>

theorem initialize_no_handlers:
  "closed b \<Longrightarrow> handlers b = [] \<Longrightarrow>
   initialize b webhook interval = (Inl (BotError ''Can't initialize with no one handler''), b)"
  by (simp add: initialize_def handlers_truth_def)

theorem initialize_no_handlers_witness:
  "closed (new_bot :: (string, string, string, string, string) bot) \<and>
   handlers (new_bot :: (string, string, string, string, string) bot) = [] \<and>
   initialize (new_bot :: (string, string, string, string, string) bot) False (1 / 10)
     = (Inl (BotError ''Can't initialize with no one handler''), new_bot)"
  using initialize_no_handlers
    [of "new_bot :: (string, string, string, string, string) bot" False "1 / 10"]
  by (simp add: new_bot_def)

text \<open>
  C5: \<^verbatim>\<open>initialize\<close> on a bot that is running returns normally and changes nothing: the
  scheduler and its jobs, the handlers, the offset and the history of effects are the same.
\<close>

theorem initialize_running:
  "\<not> closed b \<Longrightarrow> initialize b webhook interval = (Inr (), b)"
  by (simp add: initialize_def)

theorem initialize_running_witness:
  "\<not> closed demo_running \<and> initialize demo_running False (1 / 10) = (Inr (), demo_running)"
  using initialize_running [of demo_running False "1 / 10"]
  by (simp add: demo_running_eq)

subsection \<open>Registration\<close>

text \<open>
  C10: for every falsy \<^verbatim>\<open>message_type\<close>, \<^verbatim>\<open>None\<close> among them, \<^verbatim>\<open>trigger_message\<close> raises
  \<^verbatim>\<open>BotError\<close>: it gives no decorator and the bot, with its handlers, is as it was.
\<close>

theorem trigger_message_falsy:
  "falsy K message_type \<Longrightarrow>
   trigger_message K b message_type r
     = (Inl (BotError ''message_type Union[Chat, Incoming, Content] must be specifized''), b)"
  by (cases message_type) (simp_all add: falsy_def trigger_message_def)

theorem trigger_message_falsy_witness:
  "falsy demo_collab None \<and>
   trigger_message demo_collab new_bot None None
     = (Inl (BotError ''message_type Union[Chat, Incoming, Content] must be specifized''), new_bot)"
  using trigger_message_falsy [of demo_collab None new_bot None]
  by (simp add: falsy_def)

text \<open>
  C2: registration through \<^verbatim>\<open>add_handler\<close>, \<^verbatim>\<open>command()\<close> and \<^verbatim>\<open>trigger_message()\<close> appends the
  entry of the callback, but \<^verbatim>\<open>add_handler\<close> returns \<^verbatim>\<open>None\<close> and so do the decorators: the
  decorated name is bound to \<^verbatim>\<open>None\<close>, not to the callback. For the bot of
  \<^verbatim>\<open>examples/polling.py\<close> the name \<^verbatim>\<open>hi\<close> is \<^verbatim>\<open>None\<close> after its definition.
\<close>

theorem decorators_return_None:
  "add_handler b func k r =
     (None, b\<lparr>handlers := handlers b @ [\<lparr>content_type = k, rule = r, callback = func\<rparr>]\<rparr>) \<and>
   decorate (Inr (command K), b) func =
     (Inr None, b\<lparr>handlers := handlers b @
        [\<lparr>content_type = content_command K, rule = Some (rule_command K), callback = func\<rparr>]\<rparr>) \<and>
   decorate (trigger_message K b (Some m) r) func =
     (if kind_truth K m
      then (Inr None, b\<lparr>handlers := handlers b @ [\<lparr>content_type = m, rule = r, callback = func\<rparr>]\<rparr>)
      else (Inl (BotError ''message_type Union[Chat, Incoming, Content] must be specifized''), b)) \<and>
   decorate (trigger_message demo_collab new_bot (Some ''text'') (Some ''Contains hi'')) ''hi'' =
     (Inr None, demo_registered)"
  by (simp add: add_handler_def handlers_add_def decorate_def command_def trigger_message_def
      demo_registered_eq new_bot_def demo_collab_def)

subsection \<open>Processing a batch\<close>

lemma Max_insert_max:
  "finite S \<Longrightarrow> Max (insert (max a u) S) = Max (insert (u::int) (insert a S))"
  by (cases "S = {}") (simp_all add: max.commute max.left_commute)

lemma process_update_running:
  "closed b = False \<Longrightarrow> scheduler b = Some js \<Longrightarrow>
   process_update K b data = (Inr (), b\<lparr>scheduler := Some (js @ [dispatch_job K (handlers b) data])\<rparr>)"
  by (simp add: process_update_def spawn_def dispatch_job_def Let_def)

lemma process_update_Inr:
  "process_update K b data = (Inr u, b1) \<Longrightarrow> update_id b1 = update_id b"
  by (auto simp: process_update_def spawn_def Let_def split: if_splits option.splits)

text \<open>
  On a running bot the loop submits every update, in order, and leaves the largest of the
  old offset and the update ids in the offset.
\<close>

lemma process_updates_loop_running:
  "closed b = False \<Longrightarrow> scheduler b = Some js \<Longrightarrow>
   process_updates_loop K b rs =
     (Inr (), b\<lparr>scheduler := Some (js @ map (dispatch_job K (handlers b)) rs),
                update_id := Max (insert (update_id b) (raw_update_id ` set rs))\<rparr>)"
proof (induction rs arbitrary: b js)
  case Nil
  then show ?case by simp
next
  case (Cons raw rest)
  let ?b1 = "b\<lparr>scheduler := Some (js @ [dispatch_job K (handlers b) raw]),
               update_id := max (raw_update_id raw) (update_id b)\<rparr>"
  have step: "process_updates_loop K b (raw # rest) = process_updates_loop K ?b1 rest"
    using Cons.prems by (simp add: process_update_running)
  have "closed ?b1 = False" and "scheduler ?b1 = Some (js @ [dispatch_job K (handlers b) raw])"
    using Cons.prems by simp_all
  from Cons.IH [OF this] step show ?case
    by (simp add: Max_insert_max insert_commute)
qed

lemma process_updates_loop_Inr:
  "process_updates_loop K b rs = (Inr u, b') \<Longrightarrow>
   update_id b' = Max (insert (update_id b) (raw_update_id ` set rs))"
proof (induction rs arbitrary: b)
  case Nil
  then show ?case by simp
next
  case (Cons raw rest)
  obtain r b1 where p: "process_update K b raw = (r, b1)" by (cases "process_update K b raw")
  show ?case
  proof (cases r)
    case (Inl e)
    with p Cons.prems show ?thesis by simp
  next
    case (Inr v)
    with p Cons.prems have
      "process_updates_loop K (b1\<lparr>update_id := max (raw_update_id raw) (update_id b1)\<rparr>) rest
         = (Inr u, b')" by simp
    from Cons.IH [OF this] process_update_Inr [of K b raw v b1] p Inr show ?thesis
      by (simp add: Max_insert_max insert_commute)
  qed
qed

text \<open>The state after the first updates of a batch is the state the loop goes on from.\<close>

lemma process_updates_loop_append:
  "process_updates_loop K b (xs @ ys) =
     (case process_updates_loop K b xs of
        (Inl e, b1) \<Rightarrow> (Inl e, b1)
      | (Inr u, b1) \<Rightarrow> process_updates_loop K b1 ys)"
  by (induction xs arbitrary: b) (auto split: prod.splits sum.splits)

lemma late_bot_eq:
  "late_bot = demo_running\<lparr>scheduler := Some [Poller (1 / 10), Dispatch (Raw 9 ''hello'') ''text'' ''hi''],
                           update_id := 10\<rparr>"
  by (simp add: late_bot_def process_updates_def demo_running_eq process_update_def spawn_def
      demo_collab_def Let_def)

text \<open>
  After \<^verbatim>\<open>_process_updates\<close> has completed successfully the offset is unchanged when there
  was no update, and otherwise one more than the largest of the offset before and the update
  ids of the batch.
\<close>

lemma process_updates_Inr:
  "process_updates K b data = (Inr (), b') \<Longrightarrow>
   update_id b' =
     (if updates_of data = [] then update_id b
      else max (update_id b) (Max (raw_update_id ` set (updates_of data))) + 1)"
proof (cases data)
  case None
  assume "process_updates K b data = (Inr (), b')"
  with None show ?thesis by (simp add: process_updates_def updates_of_def)
next
  case (Some d)
  assume a: "process_updates K b data = (Inr (), b')"
  obtain r b1 where l: "process_updates_loop K b (result d) = (r, b1)"
    by (cases "process_updates_loop K b (result d)")
  show ?thesis
  proof (cases r)
    case (Inl e)
    with a l Some show ?thesis by (simp add: process_updates_def)
  next
    case (Inr u)
    with a l Some have b': "b' = b1\<lparr>update_id := update_id b1 + (if result d \<noteq> [] then 1 else 0)\<rparr>"
      by (simp add: process_updates_def)
    from l Inr have "update_id b1 = Max (insert (update_id b) (raw_update_id ` set (result d)))"
      by (simp add: process_updates_loop_Inr)
    with b' Some show ?thesis by (simp add: updates_of_def)
  qed
qed

text \<open>
  C1: the poller hands \<^verbatim>\<open>_process_updates\<close> what \<^verbatim>\<open>client.get_updates(self._update_id)\<close> gave,
  the updates from the offset on. For every such batch, with strictly increasing update ids
  or in any other order, after \<^verbatim>\<open>_process_updates\<close> has completed successfully the offset is
  the largest update id of the batch plus one when the batch is not empty, and it is
  unchanged when the batch is empty or the data is \<^verbatim>\<open>None\<close>. Every update id of the batch is
  then below the offset, so the next fetch is again answered with ids that are not below it.
\<close>

theorem process_updates_offset:
  "answers (update_id b) data \<Longrightarrow> process_updates K b data = (Inr (), b') \<Longrightarrow>
   update_id b' =
     (if updates_of data = [] then update_id b
      else Max (raw_update_id ` set (updates_of data)) + 1) \<and>
   list_all (\<lambda>r. raw_update_id r < update_id b') (updates_of data)"
proof -
  assume a: "answers (update_id b) data" and p: "process_updates K b data = (Inr (), b')"
  let ?ids = "raw_update_id ` set (updates_of data)"
  show ?thesis
  proof (cases "updates_of data = []")
    case True
    with process_updates_Inr [OF p] show ?thesis by simp
  next
    case False
    then have fin: "finite ?ids" by simp
    from False obtain r where r: "r \<in> set (updates_of data)" by (cases "updates_of data") auto
    with a have "update_id b \<le> raw_update_id r" by (simp add: answers_def list_all_iff)
    also from r fin have "raw_update_id r \<le> Max ?ids" by simp
    finally have "update_id b \<le> Max ?ids" .
    with process_updates_Inr [OF p] False have eq: "update_id b' = Max ?ids + 1" by simp
    have "\<forall>r\<in>set (updates_of data). raw_update_id r < update_id b'"
    proof
      fix x assume "x \<in> set (updates_of data)"
      with fin have "raw_update_id x \<le> Max ?ids" by simp
      with eq show "raw_update_id x < update_id b'" by simp
    qed
    with eq False show ?thesis by (simp add: list_all_iff)
  qed
qed

theorem process_updates_offset_witness:
  "answers (update_id demo_running) (Some (Response demo_batch)) \<and>
   sorted_wrt (<) (map raw_update_id demo_batch) \<and>
   process_updates demo_collab demo_running (Some (Response demo_batch))
     = (Inr (), demo_running\<lparr>scheduler := Some [Poller (1 / 10), Dispatch (Raw 5 ''hi'') ''text'' ''hi'',
                                                Dispatch (Raw 6 ''hi there'') ''text'' ''hi''],
                              update_id := 7\<rparr>) \<and>
   update_id (demo_running\<lparr>scheduler := Some [Poller (1 / 10), Dispatch (Raw 5 ''hi'') ''text'' ''hi'',
                                                Dispatch (Raw 6 ''hi there'') ''text'' ''hi''],
                              update_id := 7\<rparr>) = Max {5, 6} + 1 \<and>
   answers (update_id late_bot) (Some (Response [])) \<and>
   process_updates demo_collab late_bot (Some (Response [])) = (Inr (), late_bot) \<and>
   answers (update_id late_bot) None \<and>
   process_updates demo_collab late_bot None = (Inr (), late_bot) \<and>
   update_id late_bot = 10"
proof -
  have a: "answers (update_id demo_running) (Some (Response demo_batch))"
    by (simp add: answers_def updates_of_def demo_batch_def demo_running_eq)
  have h: "process_updates demo_collab demo_running (Some (Response demo_batch))
     = (Inr (), demo_running\<lparr>scheduler := Some [Poller (1 / 10), Dispatch (Raw 5 ''hi'') ''text'' ''hi'',
                                                Dispatch (Raw 6 ''hi there'') ''text'' ''hi''],
                              update_id := 7\<rparr>)"
    by (simp add: demo_batch_def process_updates_def demo_running_eq process_update_def
      spawn_def demo_collab_def Let_def)
  have e: "answers (update_id late_bot) (Some (Response []))" "answers (update_id late_bot) None"
    by (simp_all add: answers_def updates_of_def)
  have n: "process_updates demo_collab late_bot (Some (Response [])) = (Inr (), late_bot)"
    "process_updates demo_collab late_bot None = (Inr (), late_bot)"
    by (simp_all add: process_updates_def)
  from process_updates_offset [OF a h] process_updates_offset [OF e(1) n(1)]
    process_updates_offset [OF e(2) n(2)] a h e n
  show ?thesis
    by (simp add: demo_batch_def demo_running_eq late_bot_eq updates_of_def)
qed

text \<open>
  When the update ids of a batch increase strictly and none is below the offset, the largest
  of the offset and the ids of the first \<open>k\<close> updates is not above the id of any later update.
\<close>

lemma running_max_bound:
  assumes s: "sorted_wrt (<) (map raw_update_id rs)"
    and a: "list_all (\<lambda>r. (offset::int) \<le> raw_update_id r) rs"
  shows "list_all (\<lambda>r. Max (insert offset (raw_update_id ` set (take k rs))) \<le> raw_update_id r)
           (drop k rs)"
proof -
  have "sorted_wrt (<) (map raw_update_id (take k rs @ drop k rs))" using s by simp
  then have lt: "\<forall>x\<in>set (take k rs). \<forall>y\<in>set (drop k rs). raw_update_id x < raw_update_id y"
    unfolding map_append sorted_wrt_append by auto
  have "\<forall>y\<in>set (drop k rs). Max (insert offset (raw_update_id ` set (take k rs))) \<le> raw_update_id y"
  proof
    fix y assume y: "y \<in> set (drop k rs)"
    then have "y \<in> set rs" by (rule in_set_dropD)
    with a have "offset \<le> raw_update_id y" by (simp add: list_all_iff)
    moreover from lt y have "\<forall>x\<in>set (take k rs). raw_update_id x \<le> raw_update_id y"
      by (auto intro: less_imp_le)
    ultimately show "Max (insert offset (raw_update_id ` set (take k rs))) \<le> raw_update_id y"
      by simp
  qed
  then show ?thesis by (simp add: list_all_iff)
qed

text \<open>
  C9, amended: while a batch is processed on a running bot, after each submitted update the
  offset is raised to the largest update id seen so far: after the first \<open>k\<close> updates are
  submitted, and no others, it is the largest of the offset before the batch and the ids of
  these \<open>k\<close> updates; the loop goes on from this state with the other updates. When the ids of
  the batch increase strictly and none is below the offset before the batch, the offset is at
  this point not above the id of any update that is not submitted yet. Only the last step, to
  one more than the largest of the offset before and all ids of a batch that is not empty,
  happens after the whole batch is submitted.
\<close>

theorem offset_during_batch:
  "closed b = False \<Longrightarrow> scheduler b = Some js \<Longrightarrow>
   process_updates_loop K b (take k rs) =
     (Inr (), b\<lparr>scheduler := Some (js @ map (dispatch_job K (handlers b)) (take k rs)),
                update_id := Max (insert (update_id b) (raw_update_id ` set (take k rs)))\<rparr>) \<and>
   process_updates_loop K b rs =
     process_updates_loop K (snd (process_updates_loop K b (take k rs))) (drop k rs) \<and>
   (sorted_wrt (<) (map raw_update_id rs) \<and> answers (update_id b) (Some (Response rs)) \<longrightarrow>
      list_all (\<lambda>r. update_id (snd (process_updates_loop K b (take k rs))) \<le> raw_update_id r)
        (drop k rs)) \<and>
   process_updates K b (Some (Response rs)) =
     (Inr (), b\<lparr>scheduler := Some (js @ map (dispatch_job K (handlers b)) rs),
                update_id := Max (insert (update_id b) (raw_update_id ` set rs))
                             + (if rs \<noteq> [] then 1 else 0)\<rparr>)"
proof -
  assume r: "closed b = False" "scheduler b = Some js"
  have pre: "process_updates_loop K b (take k rs) =
     (Inr (), b\<lparr>scheduler := Some (js @ map (dispatch_job K (handlers b)) (take k rs)),
                update_id := Max (insert (update_id b) (raw_update_id ` set (take k rs)))\<rparr>)"
    using r by (rule process_updates_loop_running)
  have "process_updates_loop K b (take k rs @ drop k rs) =
     process_updates_loop K (snd (process_updates_loop K b (take k rs))) (drop k rs)"
    unfolding process_updates_loop_append by (simp add: pre)
  then have split: "process_updates_loop K b rs =
     process_updates_loop K (snd (process_updates_loop K b (take k rs))) (drop k rs)"
    by simp
  have bound: "sorted_wrt (<) (map raw_update_id rs) \<and> answers (update_id b) (Some (Response rs)) \<longrightarrow>
      list_all (\<lambda>r. update_id (snd (process_updates_loop K b (take k rs))) \<le> raw_update_id r)
        (drop k rs)"
  proof
    assume "sorted_wrt (<) (map raw_update_id rs) \<and> answers (update_id b) (Some (Response rs))"
    then have "sorted_wrt (<) (map raw_update_id rs)"
      and "list_all (\<lambda>r. update_id b \<le> raw_update_id r) rs"
      by (simp_all add: answers_def updates_of_def)
    from running_max_bound [OF this, of k]
    show "list_all (\<lambda>r. update_id (snd (process_updates_loop K b (take k rs))) \<le> raw_update_id r)
        (drop k rs)"
      by (simp add: pre)
  qed
  have whole: "process_updates_loop K b rs =
     (Inr (), b\<lparr>scheduler := Some (js @ map (dispatch_job K (handlers b)) rs),
                update_id := Max (insert (update_id b) (raw_update_id ` set rs))\<rparr>)"
    using r by (rule process_updates_loop_running)
  have "process_updates K b (Some (Response rs)) =
     (Inr (), b\<lparr>scheduler := Some (js @ map (dispatch_job K (handlers b)) rs),
                update_id := Max (insert (update_id b) (raw_update_id ` set rs))
                             + (if rs \<noteq> [] then 1 else 0)\<rparr>)"
    by (simp add: process_updates_def whole)
  with pre split bound show ?thesis by blast
qed

theorem offset_during_batch_witness:
  "closed demo_running = False \<and> scheduler demo_running = Some [Poller (1 / 10)] \<and>
   process_updates_loop demo_collab demo_running (take 1 demo_batch)
     = (Inr (), demo_running\<lparr>scheduler := Some [Poller (1 / 10), Dispatch (Raw 5 ''hi'') ''text'' ''hi''],
                              update_id := 5\<rparr>) \<and>
   sorted_wrt (<) (map raw_update_id demo_batch) \<and>
   answers (update_id demo_running) (Some (Response demo_batch)) \<and>
   list_all (\<lambda>r. update_id (snd (process_updates_loop demo_collab demo_running (take 1 demo_batch)))
                   \<le> raw_update_id r) (drop 1 demo_batch) \<and>
   process_updates demo_collab demo_running (Some (Response demo_batch))
     = (Inr (), demo_running\<lparr>scheduler := Some [Poller (1 / 10), Dispatch (Raw 5 ''hi'') ''text'' ''hi'',
                                                Dispatch (Raw 6 ''hi there'') ''text'' ''hi''],
                              update_id := 7\<rparr>)"
proof -
  have c: "closed demo_running = False" and s: "scheduler demo_running = Some [Poller (1 / 10)]"
    by (simp_all add: demo_running_eq)
  have o: "sorted_wrt (<) (map raw_update_id demo_batch)"
    and a: "answers (update_id demo_running) (Some (Response demo_batch))"
    by (simp_all add: answers_def updates_of_def demo_batch_def demo_running_eq)
  from offset_during_batch [OF c s, of demo_collab 1 demo_batch] o a
  have "process_updates_loop demo_collab demo_running (take 1 demo_batch) =
     (Inr (), demo_running\<lparr>scheduler := Some ([Poller (1 / 10)] @
                  map (dispatch_job demo_collab (handlers demo_running)) (take 1 demo_batch)),
                update_id := Max (insert (update_id demo_running)
                  (raw_update_id ` set (take 1 demo_batch)))\<rparr>)"
    and "list_all (\<lambda>r. update_id (snd (process_updates_loop demo_collab demo_running (take 1 demo_batch)))
                   \<le> raw_update_id r) (drop 1 demo_batch)"
    and "process_updates demo_collab demo_running (Some (Response demo_batch)) =
     (Inr (), demo_running\<lparr>scheduler := Some ([Poller (1 / 10)] @
                  map (dispatch_job demo_collab (handlers demo_running)) demo_batch),
                update_id := Max (insert (update_id demo_running) (raw_update_id ` set demo_batch))
                             + (if demo_batch \<noteq> [] then 1 else 0)\<rparr>)"
    by blast+
  with c s o a show ?thesis
    by (simp add: demo_batch_def dispatch_job_def demo_collab_def demo_running_eq)
qed

text \<open>
  C9 as stated fails: of the batch of the updates 5 and 6, processed from offset 0, only the
  first is submitted when the offset is already 5.
\<close>

theorem offset_during_batch_counterexample:
  "length demo_batch = 2 \<and>
   process_updates_loop demo_collab demo_running (take 1 demo_batch)
     = (Inr (), demo_running\<lparr>scheduler := Some [Poller (1 / 10), Dispatch (Raw 5 ''hi'') ''text'' ''hi''],
                              update_id := 5\<rparr>) \<and>
   update_id demo_running = 0"
  by (simp add: demo_batch_def demo_running_eq process_update_def spawn_def demo_collab_def Let_def)

subsection \<open>Close\<close>







subsection \<open>The poller\<close>

text \<open>
  C7: an iteration of the poller whose fetch raises \<^verbatim>\<open>TelegramApiError\<close> ends normally, with
  the offset as it was; after the fetch it reports the error and sleeps 30 when the status
  is at least 500 and 10 when it is less. The loop then goes on to its next iteration.
\<close>

theorem poll_once_api_error:
  "fetch ev = Raised (TelegramApiError status) \<Longrightarrow>
   fst (poll_once K interval b ev) = Inr () \<and>
   update_id (snd (poll_once K interval b ev)) = update_id b \<and>
   effects (snd (poll_once K interval b ev)) =
     effects b @ [Fetched (update_id b), ErrorProcessed status,
                  Slept (if status \<ge> 500 then 30 else 10)] \<and>
   get_updates K interval b (ev # evs) =
     (if closed b = False then get_updates K interval (snd (poll_once K interval b ev)) evs
      else Finished b)"
  by (simp add: poll_once_def recover_def sleep_def suspended_def Let_def)

theorem poll_once_api_error_witness:
  "fetch outage_cycle = Raised (TelegramApiError 503) \<and>
   fst (poll_once demo_collab (1 / 10) late_bot outage_cycle) = Inr () \<and>
   update_id (snd (poll_once demo_collab (1 / 10) late_bot outage_cycle)) = 10 \<and>
   effects (snd (poll_once demo_collab (1 / 10) late_bot outage_cycle)) =
     [Fetched 10, ErrorProcessed 503, Slept 30] \<and>
   fetch missing_cycle = Raised (TelegramApiError 404) \<and>
   fst (poll_once demo_collab (1 / 10) late_bot missing_cycle) = Inr () \<and>
   update_id (snd (poll_once demo_collab (1 / 10) late_bot missing_cycle)) = 10 \<and>
   effects (snd (poll_once demo_collab (1 / 10) late_bot missing_cycle)) =
     [Fetched 10, ErrorProcessed 404, Slept 10]"
proof -
  have o: "fetch outage_cycle = Raised (TelegramApiError 503)"
    and m: "fetch missing_cycle = Raised (TelegramApiError 404)"
    by (simp_all add: outage_cycle_def missing_cycle_def)
  from poll_once_api_error [OF o, of demo_collab "1 / 10" late_bot "[]"]
    poll_once_api_error [OF m, of demo_collab "1 / 10" late_bot "[]"] o m
  show ?thesis by (simp add: late_bot_eq demo_running_eq)
qed

lemma recover_Inl: "recover ev e b = (Inl e', b') \<Longrightarrow> \<not> caught e'"
  by (cases e) (auto simp: recover_def caught_def Let_def split: if_splits)

lemma recover_caught:
  "caught e \<Longrightarrow> \<not> closed_while_sleeping ev \<Longrightarrow>
   fst (recover ev e b) = Inr () \<and> closed (snd (recover ev e b)) = closed b \<and>
   scheduler (snd (recover ev e b)) = scheduler b"
  by (cases e) (auto simp: recover_def caught_def sleep_def suspended_def Let_def)

lemma poll_once_Inl: "poll_once K interval b ev = (Inl e, b') \<Longrightarrow> \<not> caught e"
  by (auto simp: poll_once_def Let_def split: fetch_outcome.splits prod.splits sum.splits
      dest: recover_Inl)

lemma process_updates_running:
  "closed b = False \<Longrightarrow> scheduler b = Some js \<Longrightarrow>
   fst (process_updates K b data) = Inr () \<and> closed (snd (process_updates K b data)) = False \<and>
   scheduler (snd (process_updates K b data)) \<noteq> None"
  by (cases data) (simp_all add: process_updates_def process_updates_loop_running)

lemma poll_once_quiet:
  assumes "closed b = False" and "scheduler b = Some js" and "quiet ev"
  shows "fst (poll_once K interval b ev) = Inr () \<and>
         closed (snd (poll_once K interval b ev)) = False \<and>
         scheduler (snd (poll_once K interval b ev)) \<noteq> None"
proof (cases "fetch ev")
  case (Raised e)
  with assms show ?thesis
    using recover_caught [of e ev "b\<lparr>effects := effects b @ [Fetched (update_id b)]\<rparr>"]
    by (simp add: poll_once_def quiet_def suspended_def)
next
  case (Returned data)
  let ?b0 = "b\<lparr>effects := effects b @ [Fetched (update_id b)]\<rparr>"
  have "closed ?b0 = False" and "scheduler ?b0 = Some js" using assms by simp_all
  from process_updates_running [OF this, of K data] Returned assms(3) show ?thesis
    by (cases "process_updates K ?b0 data")
      (simp add: poll_once_def quiet_def suspended_def sleep_def)
qed

lemma get_updates_Finished: "get_updates K interval b evs = Finished b' \<Longrightarrow> closed b'"
  by (induction evs arbitrary: b) (auto split: if_splits prod.splits sum.splits)

lemma get_updates_Failed: "get_updates K interval b evs = Failed e b' \<Longrightarrow> \<not> caught e"
  by (induction evs arbitrary: b) (auto split: if_splits prod.splits sum.splits dest: poll_once_Inl)

lemma get_updates_quiet:
  "closed b = False \<Longrightarrow> scheduler b = Some js \<Longrightarrow> list_all quiet evs \<Longrightarrow>
   \<exists>b'. get_updates K interval b evs = Looping b'"
proof (induction evs arbitrary: b js)
  case Nil
  then show ?case by simp
next
  case (Cons ev evs)
  then have q: "quiet ev" and qs: "list_all quiet evs" by simp_all
  obtain r b1 where p: "poll_once K interval b ev = (r, b1)"
    by (cases "poll_once K interval b ev")
  from poll_once_quiet [OF Cons.prems(1) Cons.prems(2) q, of K interval] p
  have r: "r = Inr ()" and c: "closed b1 = False" and "scheduler b1 \<noteq> None" by simp_all
  then obtain js1 where s: "scheduler b1 = Some js1" by auto
  from Cons.IH [OF c s qs] obtain b' where "get_updates K interval b1 evs = Looping b'" ..
  with Cons.prems(1) p r show ?case by simp
qed

text \<open>
  C8, amended: the coroutine of the poller returns only when it has seen \<^verbatim>\<open>_closed\<close> true at
  the top of an iteration. An exception of the classes \<^verbatim>\<open>TelegramApiError\<close>,
  \<^verbatim>\<open>asyncio.TimeoutError\<close> and \<^verbatim>\<open>aiohttp.ClientError\<close> never ends the loop: an exception that
  leaves it is of no such class. While nobody calls \<^verbatim>\<open>close()\<close> and the fetches give values or
  raise exceptions of these classes, the loop of a running bot is still looping after any
  number of iterations.
\<close>

theorem get_updates_termination:
  "(get_updates K interval b evs = Finished b' \<longrightarrow> closed b') \<and>
   (get_updates K interval b evs = Failed e b' \<longrightarrow> \<not> caught e) \<and>
   (closed b = False \<and> scheduler b = Some js \<and> list_all quiet evs \<longrightarrow>
      (\<exists>b''. get_updates K interval b evs = Looping b''))"
  using get_updates_Finished [of K interval b evs b'] get_updates_Failed [of K interval b evs e b']
    get_updates_quiet [of b js evs K interval]
  by blast

theorem get_updates_termination_witness:
  "get_updates demo_collab (1 / 10) demo_running [last_cycle, outage_cycle] =
     Finished (demo_running\<lparr>closed := True, effects := [Fetched 0, Slept (1 / 10)]\<rparr>) \<and>
   closed (demo_running\<lparr>closed := True, effects := [Fetched 0, Slept (1 / 10)]\<rparr>) \<and>
   get_updates demo_collab (1 / 10) demo_running [closing_cycle] =
     Failed (RuntimeError ''The bot isn't initialized'')
       (demo_running\<lparr>closed := True, effects := [Fetched 0]\<rparr>) \<and>
   \<not> caught (RuntimeError ''The bot isn't initialized'') \<and>
   closed demo_running = False \<and> scheduler demo_running = Some [Poller (1 / 10)] \<and>
   list_all quiet [outage_cycle, timeout_cycle, missing_cycle] \<and>
   get_updates demo_collab (1 / 10) demo_running [outage_cycle, timeout_cycle, missing_cycle] =
     Looping (demo_running\<lparr>effects :=
       [Fetched 0, ErrorProcessed 503, Slept 30, Fetched 0, Logged TimeoutError,
        Fetched 0, ErrorProcessed 404, Slept 10]\<rparr>)"
proof -
  have f: "get_updates demo_collab (1 / 10) demo_running [last_cycle, outage_cycle] =
     Finished (demo_running\<lparr>closed := True, effects := [Fetched 0, Slept (1 / 10)]\<rparr>)"
    by (simp add: last_cycle_def demo_running_eq poll_once_def suspended_def sleep_def
        process_updates_def Let_def)
  have x: "get_updates demo_collab (1 / 10) demo_running [closing_cycle] =
     Failed (RuntimeError ''The bot isn't initialized'')
       (demo_running\<lparr>closed := True, effects := [Fetched 0]\<rparr>)"
    by (simp add: closing_cycle_def demo_running_eq poll_once_def suspended_def process_updates_def
      process_update_def recover_def Let_def)
  have l: "get_updates demo_collab (1 / 10) demo_running [outage_cycle, timeout_cycle, missing_cycle] =
     Looping (demo_running\<lparr>effects :=
       [Fetched 0, ErrorProcessed 503, Slept 30, Fetched 0, Logged TimeoutError,
        Fetched 0, ErrorProcessed 404, Slept 10]\<rparr>)"
    by (simp add: outage_cycle_def timeout_cycle_def missing_cycle_def demo_running_eq
        poll_once_def suspended_def sleep_def recover_def Let_def)
  have q: "list_all quiet [outage_cycle, timeout_cycle, missing_cycle]"
    by (simp add: quiet_def caught_def outage_cycle_def timeout_cycle_def missing_cycle_def)
  have c: "closed demo_running = False" "scheduler demo_running = Some [Poller (1 / 10)]"
    by (simp_all add: demo_running_eq)
  from get_updates_termination [of demo_collab "1 / 10" demo_running "[last_cycle, outage_cycle]"
      "demo_running\<lparr>closed := True, effects := [Fetched 0, Slept (1 / 10)]\<rparr>"
      "RuntimeError ''x''" "[]"] f
  have 1: "closed (demo_running\<lparr>closed := True, effects := [Fetched 0, Slept (1 / 10)]\<rparr>)"
    by blast
  from get_updates_termination [of demo_collab "1 / 10" demo_running "[closing_cycle]"
      "demo_running\<lparr>closed := True, effects := [Fetched 0]\<rparr>"
      "RuntimeError ''The bot isn't initialized''" "[]"] x
  have 2: "\<not> caught (RuntimeError ''The bot isn't initialized'')" by blast
  from f 1 x 2 c q l show ?thesis by simp
qed

text \<open>
  C8 as stated fails: \<^verbatim>\<open>close()\<close> is called while the poller awaits a fetch that gives one
  update; \<^verbatim>\<open>process_update\<close> then raises \<^verbatim>\<open>RuntimeError\<close>, which no \<^verbatim>\<open>except\<close> clause names, and
  the exception ends the loop inside the iteration.
\<close>

theorem get_updates_fails_counterexample:
  "get_updates demo_collab (1 / 10) demo_running [closing_cycle] =
     Failed (RuntimeError ''The bot isn't initialized'')
       (demo_running\<lparr>closed := True, effects := [Fetched 0]\<rparr>)"
  by (simp add: closing_cycle_def demo_running_eq poll_once_def suspended_def process_updates_def
      process_update_def recover_def Let_def)

end
